theory Spec2Isabelle
  imports Main
begin

section \<open>The program: main.go\<close>

subsection \<open>Errors\<close>

text \<open>
  A Go \<^verbatim>\<open>error\<close> value. \<open>LibError m\<close> is an error handed back by a library call
  (\<^verbatim>\<open>git.PlainOpen\<close>, \<^verbatim>\<open>os.Getwd\<close>) whose message is \<open>m\<close>;
  \<open>Errorf p e\<close> is \<^verbatim>\<open>fmt.Errorf(p + "%w", e)\<close>, the error \<open>e\<close> wrapped under the prefix \<open>p\<close>.
  The nil error is \<open>None\<close> of \<open>error option\<close>.
\<close>

datatype error = LibError string | Errorf string error

text \<open>The method \<^verbatim>\<open>Error()\<close>: the text that \<^verbatim>\<open>%v\<close> and \<^verbatim>\<open>log.Fatal\<close> print.\<close>

fun error_message :: "error \<Rightarrow> string" where
  "error_message (LibError m) = m"
| "error_message (Errorf p e) = p @ error_message e"

subsection \<open>What the process does to the outside\<close>

text \<open>
  The calls that leave the process, in the order they are made. The source makes these
  kinds: \<^verbatim>\<open>os.Getwd()\<close>, \<^verbatim>\<open>git.PlainOpen(path)\<close> and \<^verbatim>\<open>log.Fatal\<close>/\<^verbatim>\<open>log.Fatalf\<close>
  (which prints its message and exits with status 1); \<open>Usage\<close> is \<^verbatim>\<open>flag.Parse()\<close>
  ending the process on its own, after writing an error message, if there is one, and
  the usage text to standard error. \<open>Exec\<close> (starting the user's command
  with its arguments) and \<open>Print\<close> (writing report text to standard output) are the two
  further kinds that the specification speaks of; main.go imports neither \<^verbatim>\<open>os/exec\<close>
  nor a printing call, and no function below produces them.
\<close>

datatype effect =
    Getwd
  | PlainOpen string
  | Exec "string list"
  | Print string
  | Fatal string
  | Usage "string option"

text \<open>The user commands started, and the report lines written, in a sequence of effects.\<close>

fun commands_run :: "effect list \<Rightarrow> string list list" where
  "commands_run [] = []"
| "commands_run (Exec a # es) = a # commands_run es"
| "commands_run (e # es) = commands_run es"

fun report_output :: "effect list \<Rightarrow> string list" where
  "report_output [] = []"
| "report_output (Print s # es) = s # report_output es"
| "report_output (e # es) = report_output es"

fun repos_opened :: "effect list \<Rightarrow> string list" where
  "repos_opened [] = []"
| "repos_opened (PlainOpen p # es) = p # repos_opened es"
| "repos_opened (e # es) = repos_opened es"

subsection \<open>The repository collaborator\<close>

text \<open>
  \<^verbatim>\<open>git.PlainOpen\<close> belongs to the go-git library, not to this program, so it is a
  parameter: \<open>popen path w\<close> is what the call returns in the world \<open>w\<close> (the file system
  with its repositories), \<open>Inl\<close> the error or \<open>Inr\<close> the repository handle, together with
  the world the call leaves behind. Nothing is assumed about it here; a theorem that needs
  the call to be a read says so.
\<close>

type_synonym ('w, 'r) plain_open = "string \<Rightarrow> 'w \<Rightarrow> (error + 'r) \<times> 'w"

subsection \<open>runCommandOnGitRevisions (lines 12-19)\<close>

text \<open>
  The result is the returned error, the effects of the call and the world afterwards.
  The handle \<open>repo\<close> is dropped (\<^verbatim>\<open>_ = repo\<close>) and \<open>start\<close>, \<open>end\<close> and \<open>args\<close> are
  not read.
\<close>

definition runCommandOnGitRevisions ::
  "('w, 'r) plain_open \<Rightarrow> string \<Rightarrow> string \<Rightarrow> string \<Rightarrow> string list \<Rightarrow> 'w
    \<Rightarrow> error option \<times> effect list \<times> 'w" where
  "runCommandOnGitRevisions popen start endRev path args w =
     (case popen path w of
        (Inl err, w') \<Rightarrow> (Some (Errorf ''opening repo: '' err), [PlainOpen path], w')
      | (Inr repo, w') \<Rightarrow> (None, [PlainOpen path], w'))"

text \<open>The three parts of its result.\<close>

abbreviation returned :: "error option \<times> effect list \<times> 'w \<Rightarrow> error option" where
  "returned r \<equiv> fst r"

abbreviation effects :: "error option \<times> effect list \<times> 'w \<Rightarrow> effect list" where
  "effects r \<equiv> fst (snd r)"

abbreviation world_after :: "error option \<times> effect list \<times> 'w \<Rightarrow> 'w" where
  "world_after r \<equiv> snd (snd r)"

subsection \<open>The command line (lines 22-25)\<close>

text \<open>
  The three flag variables and the trailing arguments \<^verbatim>\<open>flag.Args()\<close>. Lines 22-24
  define the flags \<^verbatim>\<open>s\<close>, \<^verbatim>\<open>e\<close> and \<^verbatim>\<open>p\<close>, each with the empty string as its default.
\<close>

record flags =
  startFlag :: string
  endFlag :: string
  pathFlag :: string
  Args :: "string list"

definition flag_defaults :: flags where
  "flag_defaults = \<lparr>startFlag = [], endFlag = [], pathFlag = [], Args = []\<rparr>"

text \<open>
  \<^verbatim>\<open>flag.Parse()\<close> on line 25 belongs to Go's standard library (package \<^verbatim>\<open>flag\<close>), not
  to this program. It is modelled after that package's \<^verbatim>\<open>FlagSet.parseOne\<close> and
  \<^verbatim>\<open>FlagSet.Parse\<close> for the three string flags defined here, because it decides which
  command lines reach line 27 at all: the command-line flag set handles errors by
  \<^verbatim>\<open>ExitOnError\<close>, so a failing parse ends the process, with status 0 when the error is
  \<^verbatim>\<open>ErrHelp\<close> and with status 2 otherwise.

  An argument is taken as a flag when it has at least two characters and starts with
  \<^verbatim>\<open>-\<close>; one or two minus signs are stripped; \<^verbatim>\<open>--\<close> alone ends the flags; a name that
  is empty or starts with \<^verbatim>\<open>-\<close> or \<^verbatim>\<open>=\<close> is bad syntax. A value follows after the first
  \<^verbatim>\<open>=\<close> past the first character of the name, or else is the next argument. A name that
  is not defined gives \<^verbatim>\<open>ErrHelp\<close> when it is \<^verbatim>\<open>help\<close> or \<^verbatim>\<open>h\<close>, and an error otherwise.
  In the result the field \<open>Args\<close> holds the arguments not yet consumed.
\<close>

datatype parse_error = ErrHelp | ParseError string

definition strip_minuses :: "string \<Rightarrow> string" where
  "strip_minuses s = (if s ! 1 = CHR ''-'' then drop 2 s else drop 1 s)"

definition split_value :: "string \<Rightarrow> string \<times> string option" where
  "split_value name =
     (case name of
        [] \<Rightarrow> ([], None)
      | c # cs \<Rightarrow>
          (c # takeWhile (\<lambda>x. x \<noteq> CHR ''='') cs,
           case dropWhile (\<lambda>x. x \<noteq> CHR ''='') cs of [] \<Rightarrow> None | e # v \<Rightarrow> Some v))"

definition defined_flag :: "string \<Rightarrow> bool" where
  "defined_flag name = (name = ''s'' \<or> name = ''e'' \<or> name = ''p'')"

definition set_flag :: "string \<Rightarrow> string \<Rightarrow> flags \<Rightarrow> flags" where
  "set_flag name v f =
     (if name = ''s'' then f\<lparr>startFlag := v\<rparr>
      else if name = ''e'' then f\<lparr>endFlag := v\<rparr>
      else f\<lparr>pathFlag := v\<rparr>)"

fun flag_Parse :: "string list \<Rightarrow> flags \<Rightarrow> parse_error option \<times> flags" where
  "flag_Parse [] f = (None, f\<lparr>Args := []\<rparr>)"
| "flag_Parse (s # rest) f =
     (if length s < 2 \<or> hd s \<noteq> CHR ''-'' then (None, f\<lparr>Args := s # rest\<rparr>)
      else if s = ''--'' then (None, f\<lparr>Args := rest\<rparr>)
      else if strip_minuses s = [] \<or> hd (strip_minuses s) = CHR ''-''
                \<or> hd (strip_minuses s) = CHR ''=''
        then (Some (ParseError (''bad flag syntax: '' @ s)), f\<lparr>Args := s # rest\<rparr>)
      else if \<not> defined_flag (fst (split_value (strip_minuses s))) then
        (if fst (split_value (strip_minuses s)) = ''help''
             \<or> fst (split_value (strip_minuses s)) = ''h''
         then (Some ErrHelp, f\<lparr>Args := rest\<rparr>)
         else (Some (ParseError (''flag provided but not defined: -''
                  @ fst (split_value (strip_minuses s)))), f\<lparr>Args := rest\<rparr>))
      else
        (case snd (split_value (strip_minuses s)) of
           Some v \<Rightarrow> flag_Parse rest (set_flag (fst (split_value (strip_minuses s))) v f)
         | None \<Rightarrow>
             (case rest of
                [] \<Rightarrow> (Some (ParseError (''flag needs an argument: -''
                          @ fst (split_value (strip_minuses s)))), f\<lparr>Args := []\<rparr>)
              | v # rest' \<Rightarrow>
                  flag_Parse rest' (set_flag (fst (split_value (strip_minuses s))) v f))))"

text \<open>
  An argument that, taken as a flag, has the name \<^verbatim>\<open>h\<close> or \<^verbatim>\<open>help\<close>, and a command
  line that holds one.
\<close>

definition help_flag :: "string \<Rightarrow> bool" where
  "help_flag s =
     (2 \<le> length s \<and> hd s = CHR ''-''
      \<and> (fst (split_value (strip_minuses s)) = ''help''
           \<or> fst (split_value (strip_minuses s)) = ''h''))"

fun asks_help :: "string list \<Rightarrow> bool" where
  "asks_help [] = False"
| "asks_help (s # rest) = (help_flag s \<or> asks_help rest)"

subsection \<open>main (lines 21-51)\<close>

text \<open>Lines 43-46, the last of the checks: a command must follow the flags.\<close>

definition check_args :: "flags \<Rightarrow> effect list \<Rightarrow> (string + flags) \<times> effect list" where
  "check_args f tr =
     (if length (Args f) = 0 then (Inl ''no command specified'', tr) else (Inr f, tr))"

text \<open>
  Lines 27-46: the checks and defaults before the call. \<open>cwd\<close> is what \<^verbatim>\<open>os.Getwd()\<close>
  returns in this process. The result is \<open>Inl m\<close> when \<^verbatim>\<open>log.Fatalf\<close> ends the process
  with message \<open>m\<close>, else \<open>Inr\<close> the flag variables as the call will read them; beside it
  the effects so far. On line 39 the assignment \<^verbatim>\<open>*pathFlag = here\<close> stands inside the
  branch \<^verbatim>\<open>err != nil\<close>, after \<^verbatim>\<open>log.Fatalf\<close>: it is never reached, and when
  \<^verbatim>\<open>os.Getwd\<close> succeeds the flag keeps its value.
\<close>

definition main_setup :: "(error + string) \<Rightarrow> flags \<Rightarrow> (string + flags) \<times> effect list" where
  "main_setup cwd f =
     (if startFlag f = [] then (Inl ''start flag missing'', [])
      else
        let f1 = (if endFlag f = [] then f\<lparr>endFlag := ''HEAD''\<rparr> else f) in
        if pathFlag f1 = [] then
          (case cwd of
             Inl err \<Rightarrow> (Inl (''error getting cwd: '' @ error_message err), [Getwd])
           | Inr here \<Rightarrow> check_args f1 [Getwd])
        else check_args f1 [])"

text \<open>How the process ends: its exit status, all its effects in order, the world it leaves.\<close>

record 'w outcome =
  exit_status :: int
  trace :: "effect list"
  world :: 'w

text \<open>
  Lines 48-50, what main does with the result of the call: \<^verbatim>\<open>log.Fatal(err)\<close> on an
  error, a normal return (status 0) otherwise. \<open>tr\<close> holds the effects before the call.
\<close>

definition main_finish :: "effect list \<Rightarrow> error option \<times> effect list \<times> 'w \<Rightarrow> 'w outcome" where
  "main_finish tr r =
     (case r of
        (Some err, tr', w') \<Rightarrow>
          \<lparr>exit_status = 1, trace = tr @ tr' @ [Fatal (error_message err)], world = w'\<rparr>
      | (None, tr', w') \<Rightarrow> \<lparr>exit_status = 0, trace = tr @ tr', world = w'\<rparr>)"

text \<open>
  Lines 27-50 with the function called on line 48 as the parameter \<open>callee\<close>, so that
  what main hands to it can be told from the result: the four arguments are the start,
  end and path flag variables and the trailing arguments, in this order.
\<close>

type_synonym 'w callee =
  "string \<Rightarrow> string \<Rightarrow> string \<Rightarrow> string list \<Rightarrow> 'w \<Rightarrow> error option \<times> effect list \<times> 'w"

definition main_with :: "'w callee \<Rightarrow> (error + string) \<Rightarrow> flags \<Rightarrow> 'w \<Rightarrow> 'w outcome" where
  "main_with callee cwd f w =
     (case main_setup cwd f of
        (Inl m, tr) \<Rightarrow> \<lparr>exit_status = 1, trace = tr @ [Fatal m], world = w\<rparr>
      | (Inr f', tr) \<Rightarrow>
          main_finish tr (callee (startFlag f') (endFlag f') (pathFlag f') (Args f') w))"

text \<open>
  Lines 27-50 as they are, calling runCommandOnGitRevisions: main from the point where
  \<^verbatim>\<open>flag.Parse()\<close> has returned with the flag variables \<open>f\<close>.
\<close>

definition main :: "('w, 'r) plain_open \<Rightarrow> (error + string) \<Rightarrow> flags \<Rightarrow> 'w \<Rightarrow> 'w outcome" where
  "main popen cwd f w = main_with (runCommandOnGitRevisions popen) cwd f w"

text \<open>
  Lines 21-51, the whole of main on the command line \<open>argv\<close> (\<^verbatim>\<open>os.Args[1:]\<close>):
  \<^verbatim>\<open>flag.Parse()\<close> either ends the process or hands the flag variables on to line 27.
\<close>

definition main_process_with ::
  "'w callee \<Rightarrow> (error + string) \<Rightarrow> string list \<Rightarrow> 'w \<Rightarrow> 'w outcome" where
  "main_process_with callee cwd argv w =
     (case flag_Parse argv flag_defaults of
        (None, f) \<Rightarrow> main_with callee cwd f w
      | (Some ErrHelp, f) \<Rightarrow> \<lparr>exit_status = 0, trace = [Usage None], world = w\<rparr>
      | (Some (ParseError m), f) \<Rightarrow> \<lparr>exit_status = 2, trace = [Usage (Some m)], world = w\<rparr>)"

definition main_process ::
  "('w, 'r) plain_open \<Rightarrow> (error + string) \<Rightarrow> string list \<Rightarrow> 'w \<Rightarrow> 'w outcome" where
  "main_process popen cwd argv w =
     main_process_with (runCommandOnGitRevisions popen) cwd argv w"

subsection \<open>Repositories as commit graphs\<close>

text \<open>
  Modelled from the spec: the repository handle is a type of the go-git library and the
  source never looks inside it. Section 3 and the glossary of the specification describe
  a repository as a commit graph: every revision has parent links, and an ancestor of a
  revision is a revision reachable from it by following parent links backward. A
  repository is the list of its revisions, each with its parents.
\<close>

type_synonym repository = "(string \<times> string list) list"

definition parents_of :: "repository \<Rightarrow> string \<Rightarrow> string list" where
  "parents_of g r = (case map_of g r of None \<Rightarrow> [] | Some ps \<Rightarrow> ps)"

text \<open>
  \<open>reach n g a bs\<close>: \<open>a\<close> is one of \<open>bs\<close> or is reached from one of them in at most
  \<open>n\<close> parent links. A path without repetition has fewer links than the graph has
  revisions, so \<open>length g\<close> links are enough.
\<close>

fun reach :: "nat \<Rightarrow> repository \<Rightarrow> string \<Rightarrow> string list \<Rightarrow> bool" where
  "reach n g a [] = False"
| "reach 0 g a (b # bs) = (a = b \<or> reach 0 g a bs)"
| "reach (Suc n) g a (b # bs) =
     (a = b \<or> reach n g a (parents_of g b) \<or> reach (Suc n) g a bs)"

definition is_ancestor :: "repository \<Rightarrow> string \<Rightarrow> string \<Rightarrow> bool" where
  "is_ancestor g a b = reach (length g) g a (parents_of g b)"

text \<open>
  A sample \<^verbatim>\<open>PlainOpen\<close> that only reads, for the concrete instances below: the world
  is the file system, a map from paths to the repositories stored there, and opening a
  path that holds none gives go-git's error "repository does not exist". It looks the
  path up as it is written; go-git first makes the path absolute, so the two agree on
  absolute, normalised paths only.
\<close>

definition read_open :: "(string \<rightharpoonup> repository, repository) plain_open" where
  "read_open path fs =
     (case fs path of
        None \<Rightarrow> (Inl (LibError ''repository does not exist''), fs)
      | Some g \<Rightarrow> (Inr g, fs))"

text \<open>
  The linear history A, B, C (A oldest) of the specification's end-to-end scenarios,
  stored at \<^verbatim>\<open>/repo\<close>.
\<close>

definition history_ABC :: repository where
  "history_ABC = [(''A'', []), (''B'', [''A'']), (''C'', [''B''])]"

definition fs_ABC :: "string \<rightharpoonup> repository" where
  "fs_ABC = [''/repo'' \<mapsto> history_ABC]"

section \<open>Properties\<close>

subsection \<open>Auxiliary facts\<close>

lemma main_unfold:
  "main popen cwd f w =
     (case main_setup cwd f of
        (Inl m, tr) \<Rightarrow> \<lparr>exit_status = 1, trace = tr @ [Fatal m], world = w\<rparr>
      | (Inr f', tr) \<Rightarrow>
          (case runCommandOnGitRevisions popen (startFlag f') (endFlag f') (pathFlag f') (Args f') w of
             (Some err, tr', w') \<Rightarrow>
               \<lparr>exit_status = 1, trace = tr @ tr' @ [Fatal (error_message err)], world = w'\<rparr>
           | (None, tr', w') \<Rightarrow> \<lparr>exit_status = 0, trace = tr @ tr', world = w'\<rparr>))"
  by (simp add: main_def main_with_def main_finish_def split: prod.splits sum.splits option.splits)

lemma main_setup_effects:
  "snd (main_setup cwd f) = [] \<or> snd (main_setup cwd f) = [Getwd]"
  by (simp add: main_setup_def check_args_def Let_def split: sum.splits)

lemma main_setup_quiet:
  assumes "main_setup cwd f = (r, tr)"
  shows "commands_run tr = []" and "report_output tr = []" and "repos_opened tr = []"
  using main_setup_effects [of cwd f] assms by auto

lemma run_effects:
  "effects (runCommandOnGitRevisions popen start endRev path args w) = [PlainOpen path]"
  by (simp add: runCommandOnGitRevisions_def split: prod.splits sum.splits)

lemma run_world:
  "world_after (runCommandOnGitRevisions popen start endRev path args w) = snd (popen path w)"
  by (simp add: runCommandOnGitRevisions_def split: prod.splits sum.splits)

lemma run_returned_error:
  "fst (popen path w) = Inl e \<Longrightarrow>
   returned (runCommandOnGitRevisions popen start endRev path args w)
     = Some (Errorf ''opening repo: '' e)"
  by (cases "popen path w") (simp add: runCommandOnGitRevisions_def)

lemma run_returned_nil:
  "fst (popen path w) = Inr repo \<Longrightarrow>
   returned (runCommandOnGitRevisions popen start endRev path args w) = None"
  by (cases "popen path w") (simp add: runCommandOnGitRevisions_def)

lemma commands_run_append: "commands_run (xs @ ys) = commands_run xs @ commands_run ys"
  by (induction xs rule: commands_run.induct) simp_all

lemma report_output_append: "report_output (xs @ ys) = report_output xs @ report_output ys"
  by (induction xs rule: report_output.induct) simp_all

lemma repos_opened_append: "repos_opened (xs @ ys) = repos_opened xs @ repos_opened ys"
  by (induction xs rule: repos_opened.induct) simp_all

lemma main_after_open_error:
  assumes "main_setup cwd f = (Inr f', tr)" and "fst (popen (pathFlag f') w) = Inl e"
  shows "main popen cwd f w =
           \<lparr>exit_status = 1,
            trace = tr @ [PlainOpen (pathFlag f'), Fatal (''opening repo: '' @ error_message e)],
            world = snd (popen (pathFlag f') w)\<rparr>"
  using assms by (cases "popen (pathFlag f') w") (simp add: main_unfold runCommandOnGitRevisions_def)

lemma main_after_open:
  assumes "main_setup cwd f = (Inr f', tr)" and "fst (popen (pathFlag f') w) = Inr repo"
  shows "main popen cwd f w =
           \<lparr>exit_status = 0, trace = tr @ [PlainOpen (pathFlag f')],
            world = snd (popen (pathFlag f') w)\<rparr>"
  using assms by (cases "popen (pathFlag f') w") (simp add: main_unfold runCommandOnGitRevisions_def)


lemma setup_end_absent:
  assumes "endFlag f = []"
  shows "main_setup cwd f = main_setup cwd (f\<lparr>endFlag := ''HEAD''\<rparr>)"
  unfolding main_setup_def Let_def using assms by simp

lemma setup_end_value:
  assumes "endFlag f = []" and "main_setup cwd f = (Inr f', tr)"
  shows "f' = f\<lparr>endFlag := ''HEAD''\<rparr>"
proof (cases "startFlag f = []")
  case True
  then show ?thesis using assms(2) by (simp add: main_setup_def)
next
  case False
  show ?thesis
  proof (cases "pathFlag f = []")
    case True
    then show ?thesis using assms False
      by (cases cwd) (simp_all add: main_setup_def check_args_def split: if_splits)
  next
    case p: False
    then show ?thesis using assms False
      by (simp add: main_setup_def check_args_def split: if_splits)
  qed
qed

lemma parse_help_asked:
  "fst (flag_Parse argv f) = Some ErrHelp \<Longrightarrow> asks_help argv"
proof (induction argv f rule: flag_Parse.induct)
  case (1 f)
  then show ?case by simp
next
  case (2 s rest f)
  show ?case
  proof (cases "help_flag s")
    case True
    then show ?thesis by simp
  next
    case False
    have "asks_help rest"
      using "2.prems" "2.IH" False
      by (auto simp add: help_flag_def split: if_splits option.splits list.splits)
    then show ?thesis by simp
  qed
qed

lemma main_with_fatal:
  "main_setup cwd f = (Inl m, tr) \<Longrightarrow>
   main_with callee cwd f w = \<lparr>exit_status = 1, trace = tr @ [Fatal m], world = w\<rparr>"
  by (simp add: main_with_def)

lemma main_with_call:
  "main_setup cwd f = (Inr f', tr) \<Longrightarrow>
   main_with callee cwd f w
     = main_finish tr (callee (startFlag f') (endFlag f') (pathFlag f') (Args f') w)"
  by (simp add: main_with_def)

lemma main_process_parsed:
  "flag_Parse argv flag_defaults = (None, f) \<Longrightarrow>
   main_process_with callee cwd argv w = main_with callee cwd f w"
  by (simp add: main_process_with_def)

lemma main_process_help:
  "fst (flag_Parse argv flag_defaults) = Some ErrHelp \<Longrightarrow>
   main_process_with callee cwd argv w = \<lparr>exit_status = 0, trace = [Usage None], world = w\<rparr>"
  by (cases "flag_Parse argv flag_defaults") (simp add: main_process_with_def)

lemma main_process_error:
  "fst (flag_Parse argv flag_defaults) = Some (ParseError m) \<Longrightarrow>
   main_process_with callee cwd argv w
     = \<lparr>exit_status = 2, trace = [Usage (Some m)], world = w\<rparr>"
  by (cases "flag_Parse argv flag_defaults") (simp add: main_process_with_def)

lemma setup_without_start:
  "startFlag f = [] \<Longrightarrow> main_setup cwd f = (Inl ''start flag missing'', [])"
  by (simp add: main_setup_def)

lemma setup_without_command:
  assumes "Args f = []"
  shows "\<exists>m tr. main_setup cwd f = (Inl m, tr)"
proof -
  have "isl (fst (main_setup cwd f))"
    using assms by (simp add: main_setup_def check_args_def Let_def split: sum.splits)
  then show ?thesis
    by (cases "main_setup cwd f") (auto simp add: isl_def)
qed

subsection \<open>The claims\<close>

text \<open>
  C1. When \<^verbatim>\<open>-p\<close> is absent the claim wants the repository opened at the current working
  directory. The code does not do that: with start A, end C, no \<^verbatim>\<open>-p\<close>, the command
  \<^verbatim>\<open>echo ok\<close> and \<^verbatim>\<open>os.Getwd\<close> returning \<^verbatim>\<open>/repo\<close>, the path flag is still empty after
  the defaults and \<^verbatim>\<open>git.PlainOpen\<close> is called with the empty string.
\<close>

theorem absent_path_stays_empty:
  "main_setup (Inr ''/repo'')
      \<lparr>startFlag = ''A'', endFlag = ''C'', pathFlag = [], Args = [''echo'', ''ok'']\<rparr>
     = (Inr \<lparr>startFlag = ''A'', endFlag = ''C'', pathFlag = [], Args = [''echo'', ''ok'']\<rparr>,
        [Getwd])
   \<and> repos_opened (trace (main read_open (Inr ''/repo'')
        \<lparr>startFlag = ''A'', endFlag = ''C'', pathFlag = [], Args = [''echo'', ''ok'']\<rparr> fs_ABC))
     = [[]]"
  by (simp add: main_setup_def check_args_def main_unfold runCommandOnGitRevisions_def
      read_open_def fs_ABC_def)

text \<open>
  C2. When the path does not name a valid repository (\<^verbatim>\<open>git.PlainOpen\<close> returns an error),
  runCommandOnGitRevisions returns that error wrapped as "opening repo: ...", its only
  effect is the attempt to open, and no command is run. In main, once the checks before the
  call have passed, the process then ends with status 1 and has run no command.
\<close>

theorem open_error_is_fatal:
  assumes "fst (popen path w) = Inl e"
  shows "returned (runCommandOnGitRevisions popen start endRev path args w)
           = Some (Errorf ''opening repo: '' e)
         \<and> effects (runCommandOnGitRevisions popen start endRev path args w) = [PlainOpen path]
         \<and> commands_run (effects (runCommandOnGitRevisions popen start endRev path args w)) = []
         \<and> (main_setup cwd f = (Inr f', tr) \<and> pathFlag f' = path \<longrightarrow>
              exit_status (main popen cwd f w) = 1
              \<and> commands_run (trace (main popen cwd f w)) = []
              \<and> last (trace (main popen cwd f w))
                  = Fatal (''opening repo: '' @ error_message e))"
proof -
  have "main_setup cwd f = (Inr f', tr) \<and> pathFlag f' = path \<longrightarrow>
          exit_status (main popen cwd f w) = 1
          \<and> commands_run (trace (main popen cwd f w)) = []
          \<and> last (trace (main popen cwd f w)) = Fatal (''opening repo: '' @ error_message e)"
  proof
    assume a: "main_setup cwd f = (Inr f', tr) \<and> pathFlag f' = path"
    then have "fst (popen (pathFlag f') w) = Inl e" using assms by simp
    with a main_after_open_error [where popen = popen and w = w and f' = f' and e = e and
        cwd = cwd and f = f and tr = tr] main_setup_quiet(1) [of cwd f "Inr f'" tr]
    show "exit_status (main popen cwd f w) = 1
          \<and> commands_run (trace (main popen cwd f w)) = []
          \<and> last (trace (main popen cwd f w)) = Fatal (''opening repo: '' @ error_message e)"
      by (simp add: commands_run_append)
  qed
  then show ?thesis
    using assms by (simp add: run_returned_error run_effects)
qed

theorem open_error_is_fatal_witness:
  "fst (read_open ''/tmp'' fs_ABC) = Inl (LibError ''repository does not exist'')
   \<and> main_setup (Inr ''/'')
        \<lparr>startFlag = ''A'', endFlag = ''C'', pathFlag = ''/tmp'', Args = [''echo'', ''ok'']\<rparr>
       = (Inr \<lparr>startFlag = ''A'', endFlag = ''C'', pathFlag = ''/tmp'', Args = [''echo'', ''ok'']\<rparr>, [])
   \<and> returned (runCommandOnGitRevisions read_open ''A'' ''C'' ''/tmp'' [''echo'', ''ok''] fs_ABC)
       = Some (Errorf ''opening repo: '' (LibError ''repository does not exist''))
   \<and> exit_status (main read_open (Inr ''/'')
        \<lparr>startFlag = ''A'', endFlag = ''C'', pathFlag = ''/tmp'', Args = [''echo'', ''ok'']\<rparr> fs_ABC) = 1
   \<and> commands_run (trace (main read_open (Inr ''/'')
        \<lparr>startFlag = ''A'', endFlag = ''C'', pathFlag = ''/tmp'', Args = [''echo'', ''ok'']\<rparr> fs_ABC)) = []"
proof -
  have h: "fst (read_open ''/tmp'' fs_ABC) = Inl (LibError ''repository does not exist'')"
    by (simp add: read_open_def fs_ABC_def)
  have s: "main_setup (Inr ''/'')
        \<lparr>startFlag = ''A'', endFlag = ''C'', pathFlag = ''/tmp'', Args = [''echo'', ''ok'']\<rparr>
       = (Inr \<lparr>startFlag = ''A'', endFlag = ''C'', pathFlag = ''/tmp'', Args = [''echo'', ''ok'']\<rparr>, [])"
    by (simp add: main_setup_def check_args_def)
  show ?thesis
    using h s
      open_error_is_fatal [where popen = read_open and path = "''/tmp''" and w = fs_ABC
        and e = "LibError ''repository does not exist''"
        and start = "''A''" and endRev = "''C''" and args = "[''echo'', ''ok'']"
        and cwd = "Inr ''/''" and tr = "[]"
        and f = "\<lparr>startFlag = ''A'', endFlag = ''C'', pathFlag = ''/tmp'', Args = [''echo'', ''ok'']\<rparr>"
        and f' = "\<lparr>startFlag = ''A'', endFlag = ''C'', pathFlag = ''/tmp'', Args = [''echo'', ''ok'']\<rparr>"]
    by simp
qed

text \<open>
  C3, as claimed, fails. On the command line \<^verbatim>\<open>-h\<close> the \<^verbatim>\<open>-s\<close> flag is absent (its
  value is the empty string), yet the process ends with status 0: \<^verbatim>\<open>flag.Parse()\<close>
  answers the request for help and exits before line 27 is reached.
\<close>

theorem help_without_start_counterexample:
  "startFlag (snd (flag_Parse [''-h''] flag_defaults)) = []
   \<and> exit_status (main_process read_open (Inr ''/repo'') [''-h''] fs_ABC) = 0"
  by (simp add: main_process_def main_process_with_def flag_defaults_def strip_minuses_def
      split_value_def defined_flag_def)

text \<open>
  C3, amended. For every invocation in which the \<^verbatim>\<open>-s\<close> flag is absent (its value is the
  empty string), the process ends before opening the repository or running any command and
  leaves the world as it was. When \<^verbatim>\<open>flag.Parse()\<close> accepts the command line the end is
  fatal, with status 1 and the single message "start flag missing"; when it rejects the
  command line the status is 2; the status is 0 only when \<^verbatim>\<open>flag.Parse()\<close> answers a
  request for help, and then \<^verbatim>\<open>-h\<close> or \<^verbatim>\<open>-help\<close> is among the arguments.
\<close>

theorem start_flag_absent_ends_early:
  assumes "startFlag (snd (flag_Parse argv flag_defaults)) = []"
  shows "main_process popen cwd argv w =
           (case fst (flag_Parse argv flag_defaults) of
              None \<Rightarrow> \<lparr>exit_status = 1, trace = [Fatal ''start flag missing''], world = w\<rparr>
            | Some ErrHelp \<Rightarrow> \<lparr>exit_status = 0, trace = [Usage None], world = w\<rparr>
            | Some (ParseError m) \<Rightarrow> \<lparr>exit_status = 2, trace = [Usage (Some m)], world = w\<rparr>)
         \<and> repos_opened (trace (main_process popen cwd argv w)) = []
         \<and> commands_run (trace (main_process popen cwd argv w)) = []
         \<and> world (main_process popen cwd argv w) = w
         \<and> (exit_status (main_process popen cwd argv w) = 0 \<longrightarrow>
              fst (flag_Parse argv flag_defaults) = Some ErrHelp \<and> asks_help argv)"
proof (cases "fst (flag_Parse argv flag_defaults)")
  case None
  then have p: "flag_Parse argv flag_defaults = (None, snd (flag_Parse argv flag_defaults))"
    by (simp add: prod_eq_iff)
  have "main_process popen cwd argv w
          = main_with (runCommandOnGitRevisions popen) cwd (snd (flag_Parse argv flag_defaults)) w"
    unfolding main_process_def by (rule main_process_parsed [OF p])
  also have "\<dots> = \<lparr>exit_status = 1, trace = [Fatal ''start flag missing''], world = w\<rparr>"
    using setup_without_start [OF assms, of cwd]
      main_with_fatal [where callee = "runCommandOnGitRevisions popen" and w = w and cwd = cwd
        and f = "snd (flag_Parse argv flag_defaults)" and m = "''start flag missing''"
        and tr = "[]"]
    by simp
  finally have "main_process popen cwd argv w
          = \<lparr>exit_status = 1, trace = [Fatal ''start flag missing''], world = w\<rparr>" .
  then show ?thesis using None by simp
next
  case (Some e)
  show ?thesis
  proof (cases e)
    case ErrHelp
    then have h: "fst (flag_Parse argv flag_defaults) = Some ErrHelp" using Some by simp
    show ?thesis
      using h parse_help_asked [OF h]
      by (simp add: main_process_help [OF h] main_process_def)
  next
    case (ParseError m)
    then have h: "fst (flag_Parse argv flag_defaults) = Some (ParseError m)" using Some by simp
    show ?thesis
      using h by (simp add: main_process_error [OF h] main_process_def)
  qed
qed

theorem start_flag_absent_ends_early_witness:
  "startFlag (snd (flag_Parse [''-e'', ''C'', ''echo'', ''ok''] flag_defaults)) = []
   \<and> main_process read_open (Inr ''/repo'') [''-e'', ''C'', ''echo'', ''ok''] fs_ABC
       = \<lparr>exit_status = 1, trace = [Fatal ''start flag missing''], world = fs_ABC\<rparr>"
  using start_flag_absent_ends_early [where argv = "[''-e'', ''C'', ''echo'', ''ok'']"
      and popen = read_open and cwd = "Inr ''/repo''" and w = fs_ABC]
  by (simp add: flag_defaults_def strip_minuses_def split_value_def defined_flag_def
      set_flag_def)

text \<open>
  C4, as claimed, fails. The command line \<^verbatim>\<open>-s A -help\<close> has no trailing arguments after
  the flags, yet the process ends with status 0: \<^verbatim>\<open>flag.Parse()\<close> answers the request for
  help and exits before line 43 is reached.
\<close>

theorem help_without_command_counterexample:
  "Args (snd (flag_Parse [''-s'', ''A'', ''-help''] flag_defaults)) = []
   \<and> exit_status (main_process read_open (Inr ''/repo'') [''-s'', ''A'', ''-help''] fs_ABC) = 0"
  by (simp add: main_process_def main_process_with_def flag_defaults_def strip_minuses_def
      split_value_def defined_flag_def set_flag_def)

text \<open>
  C4, amended. For every invocation in which no trailing arguments follow the flags,
  runCommandOnGitRevisions is never called (the outcome is the same whatever function
  stands on line 48), no repository is opened, no command is run and the world is left as
  it was. When \<^verbatim>\<open>flag.Parse()\<close> accepts the command line the end is fatal, through
  \<^verbatim>\<open>log.Fatalf\<close> with status 1; when it rejects the command line the status is 2; the
  status is 0 only when \<^verbatim>\<open>flag.Parse()\<close> answers a request for help, and then \<^verbatim>\<open>-h\<close> or
  \<^verbatim>\<open>-help\<close> is among the arguments.
\<close>

theorem command_absent_ends_early:
  assumes "Args (snd (flag_Parse argv flag_defaults)) = []"
  shows "main_process_with callee cwd argv w = main_process_with callee' cwd argv w
         \<and> (case fst (flag_Parse argv flag_defaults) of
               None \<Rightarrow>
                 (\<exists>m tr. main_setup cwd (snd (flag_Parse argv flag_defaults)) = (Inl m, tr)
                    \<and> main_process popen cwd argv w
                        = \<lparr>exit_status = 1, trace = tr @ [Fatal m], world = w\<rparr>)
             | Some ErrHelp \<Rightarrow>
                 main_process popen cwd argv w
                   = \<lparr>exit_status = 0, trace = [Usage None], world = w\<rparr>
             | Some (ParseError m) \<Rightarrow>
                 main_process popen cwd argv w
                   = \<lparr>exit_status = 2, trace = [Usage (Some m)], world = w\<rparr>)
         \<and> repos_opened (trace (main_process popen cwd argv w)) = []
         \<and> commands_run (trace (main_process popen cwd argv w)) = []
         \<and> world (main_process popen cwd argv w) = w
         \<and> (exit_status (main_process popen cwd argv w) = 0 \<longrightarrow>
              fst (flag_Parse argv flag_defaults) = Some ErrHelp \<and> asks_help argv)"
proof (cases "fst (flag_Parse argv flag_defaults)")
  case None
  let ?f = "snd (flag_Parse argv flag_defaults)"
  from None have p: "flag_Parse argv flag_defaults = (None, ?f)"
    by (simp add: prod_eq_iff)
  obtain m tr where s: "main_setup cwd ?f = (Inl m, tr)"
    using setup_without_command [OF assms] by blast
  have any: "main_process_with c cwd argv w
                 = \<lparr>exit_status = 1, trace = tr @ [Fatal m], world = w\<rparr>" for c
    using main_process_parsed [OF p, of c cwd w] main_with_fatal [OF s, of c w] by simp
  have q: "repos_opened tr = []" "commands_run tr = []"
    using main_setup_quiet [OF s] by simp_all
  show ?thesis
    using None s q by (simp add: any main_process_def repos_opened_append commands_run_append)
next
  case (Some e)
  show ?thesis
  proof (cases e)
    case ErrHelp
    then have h: "fst (flag_Parse argv flag_defaults) = Some ErrHelp" using Some by simp
    show ?thesis
      using h parse_help_asked [OF h]
      by (simp add: main_process_help [OF h] main_process_def)
  next
    case (ParseError m)
    then have h: "fst (flag_Parse argv flag_defaults) = Some (ParseError m)" using Some by simp
    show ?thesis
      using h by (simp add: main_process_error [OF h] main_process_def)
  qed
qed

theorem command_absent_ends_early_witness:
  "Args (snd (flag_Parse [''-s'', ''A'', ''-e'', ''C'', ''-p'', ''/repo''] flag_defaults)) = []
   \<and> main_process read_open (Inr ''/'') [''-s'', ''A'', ''-e'', ''C'', ''-p'', ''/repo''] fs_ABC
       = \<lparr>exit_status = 1, trace = [Fatal ''no command specified''], world = fs_ABC\<rparr>"
  using command_absent_ends_early [where argv = "[''-s'', ''A'', ''-e'', ''C'', ''-p'', ''/repo'']"
      and popen = read_open and cwd = "Inr ''/''" and w = fs_ABC
      and callee = "runCommandOnGitRevisions read_open"
      and callee' = "runCommandOnGitRevisions read_open"]
  by (simp add: flag_defaults_def strip_minuses_def split_value_def defined_flag_def
      set_flag_def main_setup_def check_args_def)

text \<open>
  C5. When the \<^verbatim>\<open>-e\<close> flag is absent, the end revision that main passes to the function
  it calls on line 48 is "HEAD": whatever that function is, once the checks before the call
  have passed it is applied to the start flag, "HEAD", the path flag and the trailing
  arguments, and main could as well hand it "HEAD" in every case. The flag variables after
  the defaults are the given ones with the end flag set to "HEAD"; the process behaves
  exactly as if \<^verbatim>\<open>-e HEAD\<close> had been given; and with a start revision, a path and a
  command present the call is indeed reached.
\<close>

theorem end_defaults_to_HEAD:
  assumes "endFlag f = []"
  shows "(main_setup cwd f = (Inr f', tr) \<longrightarrow> f' = f\<lparr>endFlag := ''HEAD''\<rparr> \<and> endFlag f' = ''HEAD'')
         \<and> main popen cwd f w = main popen cwd (f\<lparr>endFlag := ''HEAD''\<rparr>) w
         \<and> (startFlag f \<noteq> [] \<and> pathFlag f \<noteq> [] \<and> Args f \<noteq> [] \<longrightarrow>
              main_setup cwd f = (Inr (f\<lparr>endFlag := ''HEAD''\<rparr>), []))
         \<and> (main_setup cwd f = (Inr f', tr) \<longrightarrow>
              main_with callee cwd f w
                = main_finish tr (callee (startFlag f) ''HEAD'' (pathFlag f) (Args f) w))
         \<and> (main_setup cwd f = (Inr f', tr) \<longrightarrow>
              main popen cwd f w
                = main_finish tr
                    (runCommandOnGitRevisions popen (startFlag f) ''HEAD'' (pathFlag f) (Args f) w))
         \<and> main_with callee cwd f w = main_with (\<lambda>start endRev. callee start ''HEAD'') cwd f w
         \<and> (flag_Parse argv flag_defaults = (None, f) \<longrightarrow>
              main_process_with callee cwd argv w
                = main_with (\<lambda>start endRev. callee start ''HEAD'') cwd f w)"
proof -
  have v: "main_setup cwd f = (Inr f', tr) \<longrightarrow> f' = f\<lparr>endFlag := ''HEAD''\<rparr> \<and> endFlag f' = ''HEAD''"
    using setup_end_value [OF assms, of cwd f' tr] by auto
  have m: "main popen cwd f w = main popen cwd (f\<lparr>endFlag := ''HEAD''\<rparr>) w"
    unfolding main_unfold setup_end_absent [OF assms, of cwd] ..
  have r: "startFlag f \<noteq> [] \<and> pathFlag f \<noteq> [] \<and> Args f \<noteq> [] \<longrightarrow>
      main_setup cwd f = (Inr (f\<lparr>endFlag := ''HEAD''\<rparr>), [])"
    using assms by (simp add: main_setup_def check_args_def)
  have c: "main_setup cwd f = (Inr f', tr) \<longrightarrow>
      main_with g cwd f w = main_finish tr (g (startFlag f) ''HEAD'' (pathFlag f) (Args f) w)"
    for g
  proof
    assume s: "main_setup cwd f = (Inr f', tr)"
    then have "f' = f\<lparr>endFlag := ''HEAD''\<rparr>" using v by simp
    then show "main_with g cwd f w
        = main_finish tr (g (startFlag f) ''HEAD'' (pathFlag f) (Args f) w)"
      using main_with_call [OF s, of g w] by simp
  qed
  note c1 = c [of callee]
  note c2 = c [of "runCommandOnGitRevisions popen", folded main_def]
  have h: "main_with callee cwd f w = main_with (\<lambda>start endRev. callee start ''HEAD'') cwd f w"
  proof (cases "main_setup cwd f")
    case (Pair x tr0)
    show ?thesis
    proof (cases x)
      case (Inl m0)
      then show ?thesis using Pair by (simp add: main_with_def)
    next
      case (Inr f0)
      then have "endFlag f0 = ''HEAD''"
        using setup_end_value [OF assms, of cwd f0 tr0] Pair by simp
      then show ?thesis using Pair Inr by (simp add: main_with_def)
    qed
  qed
  have a: "flag_Parse argv flag_defaults = (None, f) \<longrightarrow>
      main_process_with callee cwd argv w
        = main_with (\<lambda>start endRev. callee start ''HEAD'') cwd f w"
    using h by (simp add: main_process_with_def)
  show ?thesis using v m r c1 c2 h a by blast
qed

theorem end_defaults_to_HEAD_witness:
  "endFlag \<lparr>startFlag = ''A'', endFlag = [], pathFlag = ''/repo'', Args = [''echo'', ''ok'']\<rparr> = []
   \<and> flag_Parse [''-s'', ''A'', ''-p'', ''/repo'', ''echo'', ''ok''] flag_defaults
       = (None, \<lparr>startFlag = ''A'', endFlag = [], pathFlag = ''/repo'', Args = [''echo'', ''ok'']\<rparr>)
   \<and> main_setup (Inr ''/'')
        \<lparr>startFlag = ''A'', endFlag = [], pathFlag = ''/repo'', Args = [''echo'', ''ok'']\<rparr>
       = (Inr \<lparr>startFlag = ''A'', endFlag = ''HEAD'', pathFlag = ''/repo'', Args = [''echo'', ''ok'']\<rparr>, [])
   \<and> endFlag \<lparr>startFlag = ''A'', endFlag = ''HEAD'', pathFlag = ''/repo'', Args = [''echo'', ''ok'']\<rparr>
       = ''HEAD''
   \<and> main_process_with (\<lambda>start endRev path args v. (None, [Print endRev], v)) (Inr ''/'')
        [''-s'', ''A'', ''-p'', ''/repo'', ''echo'', ''ok''] fs_ABC
       = \<lparr>exit_status = 0, trace = [Print ''HEAD''], world = fs_ABC\<rparr>"
  using end_defaults_to_HEAD [where
      f = "\<lparr>startFlag = ''A'', endFlag = [], pathFlag = ''/repo'', Args = [''echo'', ''ok'']\<rparr>"
      and cwd = "Inr ''/''" and tr = "[]" and popen = read_open and w = fs_ABC
      and f' = "\<lparr>startFlag = ''A'', endFlag = ''HEAD'', pathFlag = ''/repo'', Args = [''echo'', ''ok'']\<rparr>"
      and callee = "\<lambda>start endRev path args v. (None, [Print endRev], v)"
      and argv = "[''-s'', ''A'', ''-p'', ''/repo'', ''echo'', ''ok'']"]
  by (simp add: flag_defaults_def strip_minuses_def split_value_def defined_flag_def
      set_flag_def main_setup_def check_args_def
      main_with_def main_finish_def main_process_with_def)

text \<open>
  C6, as claimed, fails. In the history A, B, C stored at \<^verbatim>\<open>/repo\<close> the revision C is
  not an ancestor of A (and is not A), yet with start C and end A
  runCommandOnGitRevisions returns nil and the process exits with status 0.
\<close>

theorem not_ancestor_counterexample:
  "fst (read_open ''/repo'' fs_ABC) = Inr history_ABC
   \<and> \<not> is_ancestor history_ABC ''C'' ''A'' \<and> ''C'' \<noteq> ''A''
   \<and> returned (runCommandOnGitRevisions read_open ''C'' ''A'' ''/repo'' [''echo'', ''ok''] fs_ABC)
       = None
   \<and> exit_status (main read_open (Inr ''/'')
        \<lparr>startFlag = ''C'', endFlag = ''A'', pathFlag = ''/repo'', Args = [''echo'', ''ok'']\<rparr> fs_ABC)
       = 0"
  by (simp add: read_open_def fs_ABC_def history_ABC_def is_ancestor_def parents_of_def
      runCommandOnGitRevisions_def main_unfold main_setup_def check_args_def)

text \<open>
  C6, amended. For every valid repository and every pair of revisions start, end such that
  start is not an ancestor of end, no ancestry check is made: runCommandOnGitRevisions
  returns nil after opening the repository, no user command is executed, and the process,
  given these revisions, the path and a command as its non-empty arguments, exits with
  status 0 without running a command.
\<close>

theorem not_ancestor_is_not_checked:
  assumes "fst (popen path w) = Inr g" and "\<not> is_ancestor g start endRev"
  shows "returned (runCommandOnGitRevisions popen start endRev path args w) = None
         \<and> effects (runCommandOnGitRevisions popen start endRev path args w) = [PlainOpen path]
         \<and> commands_run (effects (runCommandOnGitRevisions popen start endRev path args w)) = []
         \<and> (start \<noteq> [] \<and> endRev \<noteq> [] \<and> path \<noteq> [] \<and> args \<noteq> [] \<longrightarrow>
              main popen cwd \<lparr>startFlag = start, endFlag = endRev, pathFlag = path, Args = args\<rparr> w
                = \<lparr>exit_status = 0, trace = [PlainOpen path], world = snd (popen path w)\<rparr>)"
proof -
  let ?f = "\<lparr>startFlag = start, endFlag = endRev, pathFlag = path, Args = args\<rparr>"
  have "start \<noteq> [] \<and> endRev \<noteq> [] \<and> path \<noteq> [] \<and> args \<noteq> [] \<longrightarrow>
          main popen cwd ?f w
            = \<lparr>exit_status = 0, trace = [PlainOpen path], world = snd (popen path w)\<rparr>"
  proof
    assume a: "start \<noteq> [] \<and> endRev \<noteq> [] \<and> path \<noteq> [] \<and> args \<noteq> []"
    then have s: "main_setup cwd ?f = (Inr ?f, [])"
      by (simp add: main_setup_def check_args_def)
    have o: "fst (popen (pathFlag ?f) w) = Inr g" using assms(1) by simp
    show "main popen cwd ?f w
            = \<lparr>exit_status = 0, trace = [PlainOpen path], world = snd (popen path w)\<rparr>"
      using main_after_open [where popen = popen and w = w and f = ?f and f' = ?f
          and cwd = cwd and tr = "[]" and repo = g] s o
      by simp
  qed
  then show ?thesis
    using assms(1) by (simp add: run_returned_nil run_effects)
qed

theorem not_ancestor_is_not_checked_witness:
  "fst (read_open ''/repo'' fs_ABC) = Inr history_ABC
   \<and> \<not> is_ancestor history_ABC ''C'' ''A''
   \<and> returned (runCommandOnGitRevisions read_open ''C'' ''A'' ''/repo'' [''echo'', ''ok''] fs_ABC)
       = None
   \<and> main read_open (Inr ''/'')
        \<lparr>startFlag = ''C'', endFlag = ''A'', pathFlag = ''/repo'', Args = [''echo'', ''ok'']\<rparr> fs_ABC
       = \<lparr>exit_status = 0, trace = [PlainOpen ''/repo''], world = fs_ABC\<rparr>"
proof -
  have h: "fst (read_open ''/repo'' fs_ABC) = Inr history_ABC"
    by (simp add: read_open_def fs_ABC_def)
  have n: "\<not> is_ancestor history_ABC ''C'' ''A''"
    by (simp add: is_ancestor_def history_ABC_def parents_of_def)
  have r: "snd (read_open ''/repo'' fs_ABC) = fs_ABC"
    by (simp add: read_open_def fs_ABC_def)
  show ?thesis
    using h n r not_ancestor_is_not_checked [where popen = read_open and path = "''/repo''"
        and w = fs_ABC and g = history_ABC and start = "''C''" and endRev = "''A''"
        and args = "[''echo'', ''ok'']" and cwd = "Inr ''/''"]
    by simp
qed

text \<open>
  C7, as claimed, fails. With start and end both B in the history A, B, C stored at
  \<^verbatim>\<open>/repo\<close>, the command \<^verbatim>\<open>echo ok\<close> is executed not once but not at all.
\<close>

theorem single_revision_counterexample:
  "fst (read_open ''/repo'' fs_ABC) = Inr history_ABC
   \<and> commands_run (effects
        (runCommandOnGitRevisions read_open ''B'' ''B'' ''/repo'' [''echo'', ''ok''] fs_ABC)) = []
   \<and> length (commands_run (effects
        (runCommandOnGitRevisions read_open ''B'' ''B'' ''/repo'' [''echo'', ''ok''] fs_ABC))) \<noteq> 1
   \<and> length (commands_run (trace (main read_open (Inr ''/'')
        \<lparr>startFlag = ''B'', endFlag = ''B'', pathFlag = ''/repo'', Args = [''echo'', ''ok'']\<rparr>
        fs_ABC))) \<noteq> 1"
  by (simp add: read_open_def fs_ABC_def runCommandOnGitRevisions_def main_unfold main_setup_def
      check_args_def)

text \<open>
  C7, amended. For every valid repository, whenever the start revision equals the end
  revision, runCommandOnGitRevisions opens the repository and returns nil; it resolves no
  revision list and the user command is executed zero times.
\<close>

theorem single_revision_runs_nothing:
  assumes "fst (popen path w) = Inr repo" and "start = endRev"
  shows "runCommandOnGitRevisions popen start endRev path args w
           = (None, [PlainOpen path], snd (popen path w))
         \<and> commands_run (effects (runCommandOnGitRevisions popen start endRev path args w)) = []"
  using assms(1) by (cases "popen path w") (simp add: runCommandOnGitRevisions_def)

theorem single_revision_runs_nothing_witness:
  "fst (read_open ''/repo'' fs_ABC) = Inr history_ABC \<and> ''B'' = ''B''
   \<and> runCommandOnGitRevisions read_open ''B'' ''B'' ''/repo'' [''echo'', ''ok''] fs_ABC
       = (None, [PlainOpen ''/repo''], fs_ABC)"
proof -
  have h: "fst (read_open ''/repo'' fs_ABC) = Inr history_ABC"
    by (simp add: read_open_def fs_ABC_def)
  have r: "snd (read_open ''/repo'' fs_ABC) = fs_ABC"
    by (simp add: read_open_def fs_ABC_def)
  show ?thesis
    using h r single_revision_runs_nothing [where popen = read_open and path = "''/repo''"
        and w = fs_ABC and repo = history_ABC and start = "''B''" and endRev = "''B''"
        and args = "[''echo'', ''ok'']"]
    by simp
qed

text \<open>
  C8. runCommandOnGitRevisions touches the repository through one call only, the
  \<^verbatim>\<open>git.PlainOpen\<close> of the path: that is its whole effect, and the world it leaves is the
  world that this one call leaves. So for every input for which \<^verbatim>\<open>git.PlainOpen\<close> is a
  read (it leaves the world as it found it) the repository state after the call is the
  state before it.
\<close>

theorem repository_unchanged:
  "effects (runCommandOnGitRevisions popen start endRev path args w) = [PlainOpen path]
   \<and> world_after (runCommandOnGitRevisions popen start endRev path args w) = snd (popen path w)
   \<and> (snd (popen path w) = w \<longrightarrow>
        world_after (runCommandOnGitRevisions popen start endRev path args w) = w)"
  by (simp add: run_effects run_world)

theorem repository_unchanged_witness:
  "snd (read_open ''/repo'' fs_ABC) = fs_ABC
   \<and> world_after (runCommandOnGitRevisions read_open ''A'' ''C'' ''/repo'' [''echo'', ''ok''] fs_ABC)
       = fs_ABC"
proof -
  have h: "snd (read_open ''/repo'' fs_ABC) = fs_ABC"
    by (simp add: read_open_def fs_ABC_def)
  then show ?thesis
    using repository_unchanged [where popen = read_open and path = "''/repo''" and w = fs_ABC
        and start = "''A''" and endRev = "''C''" and args = "[''echo'', ''ok'']"]
    by simp
qed

text \<open>
  C9. When the path names a valid repository (\<^verbatim>\<open>git.PlainOpen\<close> returns a handle), then for
  all values of start, end and args runCommandOnGitRevisions returns nil; its only effect
  is the opening of the repository, so it runs no command and writes no report.
\<close>

theorem valid_repository_returns_nil:
  assumes "fst (popen path w) = Inr repo"
  shows "returned (runCommandOnGitRevisions popen start endRev path args w) = None
         \<and> effects (runCommandOnGitRevisions popen start endRev path args w) = [PlainOpen path]
         \<and> commands_run (effects (runCommandOnGitRevisions popen start endRev path args w)) = []
         \<and> report_output (effects (runCommandOnGitRevisions popen start endRev path args w)) = []"
  using assms by (simp add: run_returned_nil run_effects)

theorem valid_repository_returns_nil_witness:
  "fst (read_open ''/repo'' fs_ABC) = Inr history_ABC
   \<and> runCommandOnGitRevisions read_open ''A'' ''C'' ''/repo'' [''echo'', ''ok''] fs_ABC
       = (None, [PlainOpen ''/repo''], fs_ABC)"
proof -
  have h: "fst (read_open ''/repo'' fs_ABC) = Inr history_ABC"
    by (simp add: read_open_def fs_ABC_def)
  have "runCommandOnGitRevisions read_open ''A'' ''C'' ''/repo'' [''echo'', ''ok''] fs_ABC
       = (None, [PlainOpen ''/repo''], fs_ABC)"
    by (simp add: runCommandOnGitRevisions_def read_open_def fs_ABC_def)
  then show ?thesis
    using h valid_repository_returns_nil [where popen = read_open and path = "''/repo''"
        and w = fs_ABC and repo = history_ABC and start = "''A''" and endRev = "''C''"
        and args = "[''echo'', ''ok'']"]
    by simp
qed

text \<open>
  C10. The result of runCommandOnGitRevisions does not depend on start, end and args: two
  calls with the same path in the same world give the same error (and the same effects and
  world), and the error is non-nil exactly when opening the repository at the path fails.
\<close>

theorem result_independent_of_revisions_and_command:
  "runCommandOnGitRevisions popen start1 end1 path args1 w
     = runCommandOnGitRevisions popen start2 end2 path args2 w
   \<and> returned (runCommandOnGitRevisions popen start1 end1 path args1 w)
     = returned (runCommandOnGitRevisions popen start2 end2 path args2 w)
   \<and> (\<exists>e. returned (runCommandOnGitRevisions popen start1 end1 path args1 w) = Some e)
     = isl (fst (popen path w))"
  by (cases "popen path w"; cases "fst (popen path w)")
     (auto simp add: runCommandOnGitRevisions_def)

end
